theory Spec2Isabelle
  imports Main "HOL-Library.Sublist" "HOL-Library.Char_ord" "HOL-Library.List_Lexorder"
begin

section \<open>Errors, handlers and middleware (echo.go, type block)\<close>

text \<open>
  A Go \<open>error\<close> is represented by the value \<open>errors.New\<close> builds: a message that
  \<open>Error()\<close> reads back.  A run-time panic of the Go code is a value of \<open>panic\<close>.
\<close>

datatype error = errorString string

fun Error :: "error \<Rightarrow> string" where
  "Error (errorString s) = s"

definition errors_New :: "string \<Rightarrow> error" where
  "errors_New s = errorString s"

datatype panic = IndexOutOfRange | NilPointer | UncomparableType

text \<open>
  \<open>Handler.Handle(Context) error\<close>: a handler works on the per-request context \<open>'c\<close> (an
  interface whose implementation is outside echo.go) and returns \<open>nil\<close> (\<open>None\<close>) or an
  error, together with the context as it left it.  \<open>Middleware.Handle(Handler) Handler\<close> wraps
  a handler.
\<close>

type_synonym 'c Handler = "'c \<Rightarrow> error option \<times> 'c"

type_synonym 'c Middleware = "'c Handler \<Rightarrow> 'c Handler"

section \<open>Routes, routers, groups and hosts\<close>

text \<open>
  The fields of \<open>Route\<close> and \<open>Router\<close> that echo.go reads and writes (route.go and router.go
  declare the structs; handler and route-level middleware are not used by the functions
  modelled here).
\<close>

record Route =
  Host :: string
  Method :: string
  Path :: string
  Prefix :: string
  Name :: string
  Format :: string
  Params :: "string list"

record Router =
  routes :: "Route list"
  nroute :: "string \<rightharpoonup> int list"

record 'm Group =
  group_host :: string
  group_prefix :: string
  group_middleware :: "'m list"

text \<open>
  \<open>Host\<close>: the pointer fields \<open>group\<close> and \<open>Router\<close> and the interface field \<open>head\<close> may be
  nil (\<open>chainMiddlewareByHost\<close> stores \<open>&Host{}\<close>), hence the options.
\<close>

record ('m, 'c) Host_rec =
  host_head :: "'c Handler option"
  host_group :: "'m Group option"
  host_groups :: "string \<rightharpoonup> 'm Group"
  host_Router :: "Router option"

text \<open>
  \<open>sync.Pool\<close>: the free contexts, and the context \<open>New\<close> builds when none is free.  Which
  free item \<open>Get\<close> hands out is the pool's choice; the model takes the most recently put one.
\<close>

record 'c Pool =
  pool_items :: "'c list"
  pool_New :: 'c

definition pool_Get :: "'c Pool \<Rightarrow> 'c \<times> 'c Pool" where
  "pool_Get p = (case pool_items p of
                   [] \<Rightarrow> (pool_New p, p)
                 | c # cs \<Rightarrow> (c, p\<lparr>pool_items := cs\<rparr>))"

definition pool_Put :: "'c Pool \<Rightarrow> 'c \<Rightarrow> 'c Pool" where
  "pool_Put p c = p\<lparr>pool_items := c # pool_items p\<rparr>"

text \<open>
  The \<open>Echo\<close> struct.  \<open>routers\<close> is the host table \<open>findRouter\<close> ranges over (the struct
  declaration in echo.go does not list it); it is an association list whose order stands for
  the order in which Go happens to iterate over the map in a given call.
\<close>

record ('m, 'c) Echo =
  middleware :: "'m list"
  head :: "'c Handler option"
  hosts :: "string \<rightharpoonup> ('m, 'c) Host_rec"
  routers :: "(string \<times> Router) list"
  router :: Router
  pool :: "'c Pool"
  middlewareWrapper :: "('m \<Rightarrow> 'c Middleware option) list"

text \<open>
  What echo.go calls but does not define: \<open>WrapMiddleware\<close>, \<open>Router.Handle(nil)\<close>,
  \<open>Context.Reset\<close>, \<open>Context.Error\<close> and \<open>Request.Host\<close>.
\<close>

record ('m, 'c, 'req) Env =
  WrapMiddleware :: "'m \<Rightarrow> 'c Middleware"
  Router_Handle :: "Router \<Rightarrow> 'c Handler"
  Context_Reset :: "'req \<Rightarrow> 'c \<Rightarrow> 'c"
  Context_Error :: "error \<Rightarrow> 'c \<Rightarrow> 'c"
  Request_Host :: "'req \<Rightarrow> string"

section \<open>Global middleware: ValidMiddleware, Use, PreUse, Clear\<close>

fun firstWrapped :: "('m \<Rightarrow> 'c Middleware option) list \<Rightarrow> 'm \<Rightarrow> 'c Middleware option" where
  "firstWrapped [] v = None"
| "firstWrapped (w # ws) v = (case w v of Some m \<Rightarrow> Some m | None \<Rightarrow> firstWrapped ws v)"

definition ValidMiddleware ::
  "('m, 'c, 'req) Env \<Rightarrow> ('m, 'c) Echo \<Rightarrow> 'm \<Rightarrow> 'c Middleware" where
  "ValidMiddleware D e v =
     (case firstWrapped (middlewareWrapper e) v of
        Some m \<Rightarrow> m
      | None \<Rightarrow> WrapMiddleware D v)"

text \<open>
  \<open>Use\<close>: for each argument, \<open>e.ValidMiddleware(m)\<close> is called for its check only (the
  result is dropped) and \<open>m\<close> is appended; the function does not assign \<open>e.head\<close>.
\<close>

fun Use :: "('m, 'c) Echo \<Rightarrow> 'm list \<Rightarrow> ('m, 'c) Echo" where
  "Use e [] = e"
| "Use e (m # ms) = Use (e\<lparr>middleware := middleware e @ [m]\<rparr>) ms"

fun PreUse_collect :: "'m list \<Rightarrow> 'm list \<Rightarrow> 'm list" where
  "PreUse_collect acc [] = acc"
| "PreUse_collect acc (m # ms) = PreUse_collect (acc @ [m]) ms"

definition PreUse :: "('m, 'c) Echo \<Rightarrow> 'm list \<Rightarrow> ('m, 'c) Echo" where
  "PreUse e ms = e\<lparr>middleware := PreUse_collect [] ms @ middleware e\<rparr>"

text \<open>
  \<open>Clear\<close> with arguments compares interface values with \<open>m != dm\<close>.  Go compares two
  interface values by their dynamic types first: values of different dynamic types are unequal;
  values of the same dynamic type are compared as values of that type, and the comparison
  panics at run time when that type is not comparable (func types such as \<open>MiddlewareFunc\<close>
  and \<open>MiddlewareFuncd\<close>, maps, slices).  \<open>typeOf\<close> gives the dynamic type of a middleware
  value.
\<close>

datatype DynType = Comparable string | Uncomparable string

definition interface_neq :: "('m \<Rightarrow> DynType) \<Rightarrow> 'm \<Rightarrow> 'm \<Rightarrow> panic + bool" where
  "interface_neq typeOf m dm =
     (if typeOf m \<noteq> typeOf dm then Inr True
      else (case typeOf m of
              Uncomparable t \<Rightarrow> Inl UncomparableType
            | Comparable t \<Rightarrow> Inr (m \<noteq> dm)))"

text \<open>
  The inner \<open>range\<close> runs over the slice as it was when the loop began (\<open>n\<close> elements) but
  reads each element from the shared backing array \<open>arr\<close> at the time of the iteration, while
  \<open>append(e.middleware[0:i], e.middleware[start:]...)\<close> shifts that array in place; \<open>len\<close> is the
  current length of \<open>e.middleware\<close>.  A panic of the comparison leaves the function at once:
  the final \<open>e.head = nil\<close> is not reached.
\<close>

function Clear_range ::
  "('m \<Rightarrow> DynType) \<Rightarrow> 'm \<Rightarrow> nat \<Rightarrow> nat \<Rightarrow> 'm list \<Rightarrow> nat \<Rightarrow> nat \<Rightarrow> panic + ('m list \<times> nat)" where
  "Clear_range typeOf dm n i arr len decr =
     (if n \<le> i then Inr (arr, len)
      else
        (case interface_neq typeOf (arr ! i) dm of
           Inl p \<Rightarrow> Inl p
         | Inr True \<Rightarrow> Clear_range typeOf dm n (Suc i) arr len decr
         | Inr False \<Rightarrow>
             (let j = i - decr; start = j + 1 in
              if start < len
              then Clear_range typeOf dm n (Suc i)
                     (take j arr @ take (len - start) (drop start arr) @
                      drop (j + (len - start)) arr)
                     (len - 1) (Suc decr)
              else Clear_range typeOf dm n (Suc i) arr j (Suc decr))))"
  by pat_completeness auto
termination
  by (relation "measure (\<lambda>(typeOf, dm, n, i, arr, len, decr). n - i)") auto

fun Clear_each :: "('m \<Rightarrow> DynType) \<Rightarrow> 'm list \<Rightarrow> 'm list \<Rightarrow> panic + 'm list" where
  "Clear_each typeOf [] mw = Inr mw"
| "Clear_each typeOf (dm # dms) mw =
     (case Clear_range typeOf dm (length mw) 0 mw (length mw) 0 of
        Inl p \<Rightarrow> Inl p
      | Inr (arr, len) \<Rightarrow> Clear_each typeOf dms (take len arr))"

definition Clear ::
  "('m \<Rightarrow> DynType) \<Rightarrow> ('m, 'c) Echo \<Rightarrow> 'm list \<Rightarrow> panic + ('m, 'c) Echo" where
  "Clear typeOf e ms =
     (if 0 < length ms then
        (case Clear_each typeOf ms (middleware e) of
           Inl p \<Rightarrow> Inl p
         | Inr mw \<Rightarrow> Inr (e\<lparr>middleware := mw, head := None\<rparr>))
      else Inr (e\<lparr>middleware := [], head := None\<rparr>))"

section \<open>The chain builder\<close>

text \<open>
  The loop \<open>for i := len(e.middleware) - 1; i >= 0; i--\<close>: \<open>chain_from D e k h\<close> runs the
  iterations \<open>i = k - 1, ..., 0\<close> on the handler built so far.
\<close>

fun chain_from :: "('m, 'c, 'req) Env \<Rightarrow> ('m, 'c) Echo \<Rightarrow> nat \<Rightarrow> 'c Handler \<Rightarrow> 'c Handler" where
  "chain_from D e 0 h = h"
| "chain_from D e (Suc i) h = chain_from D e i (ValidMiddleware D e (middleware e ! i) h)"

definition chainMiddleware ::
  "('m, 'c, 'req) Env \<Rightarrow> ('m, 'c) Echo \<Rightarrow> 'c Handler \<times> ('m, 'c) Echo" where
  "chainMiddleware D e =
     (case head e of
        Some h \<Rightarrow> (h, e)
      | None \<Rightarrow>
          (let h = chain_from D e (length (middleware e)) (Router_Handle D (router e))
           in (h, e\<lparr>head := Some h\<rparr>)))"

definition empty_Host :: "('m, 'c) Host_rec" where
  "empty_Host = \<lparr>host_head = None, host_group = None, host_groups = Map.empty,
                 host_Router = None\<rparr>"

definition chainMiddlewareByHost ::
  "('m, 'c, 'req) Env \<Rightarrow> ('m, 'c) Echo \<Rightarrow> string \<Rightarrow> Router \<Rightarrow> 'c Handler \<times> ('m, 'c) Echo" where
  "chainMiddlewareByHost D e host rt =
     (let build = (\<lambda>h0.
            let handler = chain_from D e (length (middleware e)) (Router_Handle D rt)
            in (handler, e\<lparr>hosts := (hosts e)(host \<mapsto> h0\<lparr>host_head := Some handler\<rparr>)\<rparr>))
      in case hosts e host of
           None \<Rightarrow> build empty_Host
         | Some h \<Rightarrow> (case host_head h of Some cached \<Rightarrow> (cached, e) | None \<Rightarrow> build h))"

section \<open>Host resolution: findRouter\<close>

text \<open>
  The loop over the host table.  \<open>h[0]\<close> and \<open>h[len(h)-1]\<close> index the pattern: on the empty
  pattern the index expression panics.
\<close>

fun findRouter_range :: "string \<Rightarrow> (string \<times> Router) list \<Rightarrow> panic + Router option" where
  "findRouter_range host [] = Inr None"
| "findRouter_range host ((h, r) # rest) =
     (if length host \<le> length h then findRouter_range host rest
      else if h = [] then Inl IndexOutOfRange
      else if hd h = CHR ''.'' \<and> suffix h host then Inr (Some r)
      else if last h = CHR ''.'' \<and> prefix h host then Inr (Some r)
      else findRouter_range host rest)"

definition findRouter :: "('m, 'c) Echo \<Rightarrow> string \<Rightarrow> panic + (Router \<times> bool)" where
  "findRouter e host =
     (if 0 < length (routers e) then
        (case map_of (routers e) host of
           Some r \<Rightarrow> Inr (r, True)
         | None \<Rightarrow>
            (case findRouter_range host (routers e) of
               Inl p \<Rightarrow> Inl p
             | Inr (Some r) \<Rightarrow> Inr (r, True)
             | Inr None \<Rightarrow> Inr (router e, False)))
      else Inr (router e, False))"

section \<open>The dispatch loop: ServeHTTP\<close>

definition ServeHTTP ::
  "('m, 'c, 'req) Env \<Rightarrow> ('m, 'c) Echo \<Rightarrow> 'req \<Rightarrow> panic + ('m, 'c) Echo" where
  "ServeHTTP D e req =
     (case pool_Get (pool e) of
        (c0, p) \<Rightarrow>
          (case findRouter e (Request_Host D req) of
             Inl pn \<Rightarrow> Inl pn
           | Inr (rt, exist) \<Rightarrow>
               (case (if exist then chainMiddlewareByHost D e (Request_Host D req) rt
                      else chainMiddleware D e) of
                  (handler, e1) \<Rightarrow>
                    (case handler (Context_Reset D req c0) of
                       (Some err, c1) \<Rightarrow>
                         Inr (e1\<lparr>pool := pool_Put p (Context_Error D err c1)\<rparr>)
                     | (None, c1) \<Rightarrow> Inr (e1\<lparr>pool := pool_Put p c1\<rparr>)))))"

text \<open>\<open>NewWithContext\<close>: the fields of a new instance, \<open>c\<close> being the context \<open>fn(e)\<close> builds.\<close>

definition NewWithContext :: "'c \<Rightarrow> ('m, 'c) Echo" where
  "NewWithContext c =
     \<lparr>middleware = [], head = None, hosts = Map.empty, routers = [],
      router = \<lparr>routes = [], nroute = Map.empty\<rparr>,
      pool = \<lparr>pool_items = [], pool_New = c\<rparr>, middlewareWrapper = []\<rparr>"

subsection \<open>An instance whose contexts record what ran\<close>

text \<open>
  To observe which handlers a dispatch runs and in which order, take for the context the list
  of the names that ran so far: the middleware named \<open>n\<close> appends \<open>n\<close> and calls the next
  handler, the router's handler appends \<open>route\<close> (and, in \<open>failing_Env\<close>, returns an error),
  and \<open>Context.Error\<close> appends \<open>error\<close>.  \<open>released\<close> reads the contexts in the pool after a
  dispatch.
\<close>

definition tracer :: "string \<Rightarrow> (string list) Middleware" where
  "tracer n h c = h (c @ [n])"

definition route_handler :: "(string list) Handler" where
  "route_handler c = (None, c @ [''route''])"

definition failing_handler :: "(string list) Handler" where
  "failing_handler c = (Some (errors_New ''boom''), c @ [''route''])"

definition trace_Env :: "(string, string list, string) Env" where
  "trace_Env = \<lparr>WrapMiddleware = tracer, Router_Handle = (\<lambda>rt. route_handler),
                Context_Reset = (\<lambda>req c. []), Context_Error = (\<lambda>err c. c @ [''error'']),
                Request_Host = (\<lambda>req. req)\<rparr>"

definition failing_Env :: "(string, string list, string) Env" where
  "failing_Env = trace_Env\<lparr>Router_Handle := (\<lambda>rt. failing_handler)\<rparr>"

definition trace_Echo :: "(string, string list) Echo" where
  "trace_Echo = NewWithContext []"

definition released :: "panic + ('m, 'c) Echo \<Rightarrow> 'c list" where
  "released r = (case r of Inl p \<Rightarrow> [] | Inr e \<Rightarrow> pool_items (pool e))"

text \<open>
  \<open>host_Echo\<close> has one registered host; \<open>pointer_type\<close> takes every middleware value for a
  pointer (comparable), \<open>func_type\<close> for a \<open>MiddlewareFunc\<close> (a func type, not comparable).
\<close>

definition host_Echo :: "(string, string list) Echo" where
  "host_Echo = trace_Echo\<lparr>routers := [(''api.example.com'', router trace_Echo)]\<rparr>"

definition pointer_type :: "string \<Rightarrow> DynType" where
  "pointer_type n = Comparable ''*tracer''"

definition func_type :: "string \<Rightarrow> DynType" where
  "func_type n = Uncomparable ''echo.MiddlewareFunc''"

section \<open>Host: lookup-or-create of a host entry\<close>

text \<open>
  Modelled from the spec: \<open>Group.Use\<close> (group.go is not among the sources) adds the given
  middleware to the group's middleware collection; on a nil group the call dereferences nil.
\<close>

definition Group_Use :: "'m Group \<Rightarrow> 'm list \<Rightarrow> 'm Group" where
  "Group_Use grp ms = grp\<lparr>group_middleware := group_middleware grp @ ms\<rparr>"

text \<open>
  \<open>Echo.Host\<close>.  The function looks the entry up in \<open>e.hosts\<close>, creates it when absent, adds
  the middleware to the entry's group, and ends with \<open>return g\<close>.  The body binds \<open>h\<close> only: \<open>g\<close>
  is not declared in it, so what \<open>g\<close> denotes is a parameter of the model.  The result is the
  returned group and the new state.
\<close>

definition Echo_Host ::
  "'m Group \<Rightarrow> ('m, 'c) Echo \<Rightarrow> string \<Rightarrow> 'm list \<Rightarrow> panic + ('m Group \<times> ('m, 'c) Echo)" where
  "Echo_Host g e name m =
     (let (h, e1) =
            (case hosts e name of
               Some h0 \<Rightarrow> (h0, e)
             | None \<Rightarrow>
                 (let h0 = \<lparr>host_head = None,
                            host_group = Some \<lparr>group_host = name, group_prefix = [],
                                               group_middleware = []\<rparr>,
                            host_groups = Map.empty,
                            host_Router = Some \<lparr>routes = [], nroute = Map.empty\<rparr>\<rparr>
                  in (h0, e\<lparr>hosts := (hosts e)(name \<mapsto> h0)\<rparr>)))
      in if 0 < length m then
           (case host_group h of
              None \<Rightarrow> Inl NilPointer
            | Some grp \<Rightarrow>
                Inr (g, e1\<lparr>hosts := (hosts e1)(name \<mapsto> h\<lparr>host_group := Some (Group_Use grp m)\<rparr>)\<rparr>))
         else Inr (g, e1))"

section \<open>Reverse URL generation: URI\<close>

subsection \<open>The library functions URI calls (strings, sort, net/url)\<close>

text \<open>
  \<open>strings.Replace(s, old, new, -1)\<close> for a non-empty \<open>old\<close>: every non-overlapping
  occurrence, from the left.  URI only passes \<open>tag + "/"\<close>, which is never empty; for an
  empty \<open>old\<close> (where Go inserts \<open>new\<close> between the runes) the model returns \<open>s\<close>.
\<close>

function strings_Replace :: "string \<Rightarrow> string \<Rightarrow> string \<Rightarrow> string" where
  "strings_Replace s old new =
     (if s = [] \<or> old = [] then s
      else if prefix old s then new @ strings_Replace (drop (length old) s) old new
      else hd s # strings_Replace (tl s) old new)"
  by pat_completeness auto
termination
  by (relation "measure (\<lambda>(s, old, new). length s)") auto

definition strings_HasSuffix :: "string \<Rightarrow> string \<Rightarrow> bool" where
  "strings_HasSuffix s suf = suffix suf s"

definition strings_TrimSuffix :: "string \<Rightarrow> string \<Rightarrow> string" where
  "strings_TrimSuffix s suf =
     (if strings_HasSuffix s suf then take (length s - length suf) s else s)"

text \<open>
  \<open>url.QueryEscape\<close>: letters, digits and \<open>- _ . ~\<close> stay, a space becomes \<open>+\<close>, every other
  byte becomes \<open>%XX\<close> in upper-case hexadecimal.
\<close>

definition shouldEscape :: "char \<Rightarrow> bool" where
  "shouldEscape c =
     (\<not> ((CHR ''a'' \<le> c \<and> c \<le> CHR ''z'') \<or> (CHR ''A'' \<le> c \<and> c \<le> CHR ''Z'') \<or>
          (CHR ''0'' \<le> c \<and> c \<le> CHR ''9'') \<or>
          c = CHR ''-'' \<or> c = CHR ''_'' \<or> c = CHR ''.'' \<or> c = CHR ''~''))"

definition upperhex :: "nat \<Rightarrow> char" where
  "upperhex n = ''0123456789ABCDEF'' ! (n mod 16)"

fun QueryEscape :: "string \<Rightarrow> string" where
  "QueryEscape [] = []"
| "QueryEscape (c # cs) =
     (if shouldEscape c then
        (if c = CHR '' '' then ''+''
         else [CHR ''%'', upperhex (of_char c div 16), upperhex (of_char c mod 16)])
      else [c]) @ QueryEscape cs"

text \<open>
  A Go map is a finite map; \<open>for k := range val\<close> followed by \<open>sort.Strings(keys)\<close> yields its
  keys in ascending byte-wise order, whatever order the iteration took.
\<close>

definition sorted_keys :: "(string \<rightharpoonup> 'a) \<Rightarrow> string list" where
  "sorted_keys val = sorted_list_of_set (dom val)"

text \<open>\<open>url.Values\<close> (a \<open>map[string][]string\<close>): \<open>Get\<close>, \<open>Del\<close> and \<open>Encode\<close>.\<close>

definition Values_Get :: "(string \<rightharpoonup> string list) \<Rightarrow> string \<Rightarrow> string" where
  "Values_Get val k = (case val k of Some (v # vs) \<Rightarrow> v | _ \<Rightarrow> [])"

definition Values_Del :: "(string \<rightharpoonup> string list) \<Rightarrow> string \<Rightarrow> (string \<rightharpoonup> string list)" where
  "Values_Del val k = val(k := None)"

fun Encode_values :: "string \<Rightarrow> string list \<Rightarrow> string \<Rightarrow> string" where
  "Encode_values keyEscaped [] buf = buf"
| "Encode_values keyEscaped (v # vs) buf =
     Encode_values keyEscaped vs
       ((if 0 < length buf then buf @ ''&'' else buf) @ keyEscaped @ ''='' @ QueryEscape v)"

fun Encode_keys :: "string list \<Rightarrow> (string \<rightharpoonup> string list) \<Rightarrow> string \<Rightarrow> string" where
  "Encode_keys [] val buf = buf"
| "Encode_keys (k # ks) val buf =
     Encode_keys ks val
       (Encode_values (QueryEscape k) (case val k of Some vs \<Rightarrow> vs | None \<Rightarrow> []) buf)"

definition Values_Encode :: "(string \<rightharpoonup> string list) \<Rightarrow> string" where
  "Values_Encode val = (if dom val = {} then [] else Encode_keys (sorted_keys val) val [])"

subsection \<open>URI\<close>

text \<open>
  The first argument of URI: a \<open>Handler\<close> that implements \<open>Name\<close> (with the name it gives), any
  other \<open>Handler\<close> (with the name \<open>HandlerName\<close> computes for it), a string, or a value of
  another type.
\<close>

datatype HandlerRef = NamedHandler string | PlainHandler string | NameString string | OtherRef

text \<open>
  One variadic parameter: a \<open>url.Values\<close>, a \<open>map[string]string\<close>, a \<open>[]interface{}\<close>, or a
  value of another type.  Both maps are reference types: URI's writes reach the caller's map, so
  URI returns the parameters as it leaves them.
\<close>

datatype 'v Arg =
    A_Values "string \<Rightarrow> string list option"
  | A_Map "string \<Rightarrow> string option"
  | A_Slice "'v Arg list"
  | A_Other 'v

fun resolve_name :: "HandlerRef \<Rightarrow> string option" where
  "resolve_name (NamedHandler n) = Some n"
| "resolve_name (PlainHandler n) = Some n"
| "resolve_name (NameString n) = Some n"
| "resolve_name OtherRef = None"

definition substitute :: "string \<Rightarrow> string \<Rightarrow> string \<Rightarrow> string" where
  "substitute uri name v =
     (let tag = '':'' @ name;
          uri1 = strings_Replace uri (tag @ ''/'') (v @ ''/'')
      in if strings_HasSuffix uri1 tag then strings_TrimSuffix uri1 tag @ v else uri1)"

fun subst_values ::
  "string list \<Rightarrow> string \<Rightarrow> (string \<rightharpoonup> string list) \<Rightarrow> string \<times> (string \<rightharpoonup> string list)" where
  "subst_values [] uri val = (uri, val)"
| "subst_values (name # names) uri val =
     subst_values names (substitute uri name (Values_Get val name)) (Values_Del val name)"

fun subst_map ::
  "string list \<Rightarrow> string \<Rightarrow> (string \<rightharpoonup> string) \<Rightarrow> string \<times> (string \<rightharpoonup> string)" where
  "subst_map [] uri val = (uri, val)"
| "subst_map (name # names) uri val =
     (case val name of
        Some v \<Rightarrow> subst_map names (substitute uri name v) (val(name := None))
      | None \<Rightarrow> subst_map names (substitute uri name []) val)"

definition map_at :: "(string \<rightharpoonup> string) \<Rightarrow> string \<Rightarrow> string" where
  "map_at val k = (case val k of Some v \<Rightarrow> v | None \<Rightarrow> [])"

fun query_loop :: "string list \<Rightarrow> (string \<rightharpoonup> string) \<Rightarrow> string \<Rightarrow> string \<Rightarrow> string" where
  "query_loop [] val uri sep = uri"
| "query_loop (k # ks) val uri sep =
     query_loop ks val (uri @ sep @ QueryEscape k @ ''='' @ QueryEscape (map_at val k)) ''&''"

definition URI_route ::
  "(string \<Rightarrow> 'v Arg list \<Rightarrow> string) \<Rightarrow> Route \<Rightarrow> 'v Arg list \<Rightarrow> string \<times> 'v Arg list" where
  "URI_route Sprintf r params =
     (if length params = 1 then
        (case hd params of
           A_Values val \<Rightarrow>
             (case subst_values (Params r) (Path r) val of
                (uri, val1) \<Rightarrow>
                  (let q = Values_Encode val1
                   in (if 0 < length q then uri @ ''?'' @ q else uri, [A_Values val1])))
         | A_Map val \<Rightarrow>
             (case subst_map (Params r) (Path r) val of
                (uri, val1) \<Rightarrow> (query_loop (sorted_keys val1) val1 uri ''?'', [A_Map val1]))
         | A_Slice vs \<Rightarrow> (Sprintf (Format r) vs, params)
         | A_Other v \<Rightarrow> (Sprintf (Format r) [A_Other v], params))
      else (Sprintf (Format r) params, params))"

definition URI ::
  "(string \<Rightarrow> 'v Arg list \<Rightarrow> string) \<Rightarrow> ('m, 'c) Echo \<Rightarrow> HandlerRef \<Rightarrow> 'v Arg list
     \<Rightarrow> panic + (string \<times> 'v Arg list)" where
  "URI Sprintf e handler params =
     (case resolve_name handler of
        None \<Rightarrow> Inr ([], params)
      | Some name \<Rightarrow>
          (case nroute (router e) name of
             None \<Rightarrow> Inr ([], params)
           | Some indexes \<Rightarrow>
               (if 0 < length indexes then
                  (if 0 \<le> hd indexes \<and> nat (hd indexes) < length (routes (router e))
                   then Inr (URI_route Sprintf (routes (router e) ! nat (hd indexes)) params)
                   else Inl IndexOutOfRange)
                else Inr ([], params))))"

section \<open>The session middleware (middleware/session/middleware.go)\<close>

text \<open>
  The values a session stores are Go values of any type; the type assertion \<open>.(int)\<close> succeeds
  on an \<open>int\<close> only.  \<open>s.Get\<close> returns nil (\<open>None\<close>) for a key the session does not hold.
\<close>

datatype GoValue = V_int int | V_int64 int | V_string string | V_bool bool

text \<open>The two closures the middleware installs: the pre-save hook and \<open>s.Save\<close>.\<close>

datatype HookRef = MaxAgeHook | SaveHook

record Session =
  sess_name :: string
  sess_values :: "string \<rightharpoonup> GoValue"
  sess_PreSaveHook :: "HookRef option"

record SessionOptions =
  so_Name :: string

text \<open>The part of \<open>echo.Context\<close> the middleware works on.\<close>

record Context =
  ctx_SessionOptions :: SessionOptions
  ctx_Sessioner :: "Session option"
  CookieOptions_MaxAge :: int
  PreResponseHooks :: "HookRef list"
  Logger_errors :: "error list"

definition CookieMaxAgeKey :: string where
  "CookieMaxAgeKey = ''CookieMaxAge''"

definition Session_Get :: "Session \<Rightarrow> string \<Rightarrow> GoValue option" where
  "Session_Get s k = sess_values s k"

text \<open>The closure passed to \<open>s.SetPreSaveHook\<close>, over the session \<open>s\<close> it captures.\<close>

definition preSaveHook :: "Session \<Rightarrow> Context \<Rightarrow> error option \<times> Context" where
  "preSaveHook s c =
     (case Session_Get s CookieMaxAgeKey of
        Some (V_int maxAge) \<Rightarrow>
          (if 3600 < maxAge \<and> CookieOptions_MaxAge c \<noteq> maxAge
           then (None, c\<lparr>CookieOptions_MaxAge := maxAge\<rparr>)
           else (None, c))
      | _ \<Rightarrow> (None, c))"

text \<open>
  \<open>newSession\<close>, \<open>c.SetSessioner(s)\<close>, \<open>s.SetPreSaveHook(...)\<close> and
  \<open>c.AddPreResponseHook(s.Save)\<close>.  \<open>NewMySession\<close> (with the store it closes over) and
  \<open>s.Save\<close> are defined outside this file and are parameters.
\<close>

definition session_setup ::
  "SessionOptions option \<Rightarrow> (string \<Rightarrow> Context \<Rightarrow> Session) \<Rightarrow> Context \<Rightarrow> Context" where
  "session_setup options NewMySession c =
     (let c0 = (case options of
                  None \<Rightarrow> c
                | Some opts \<Rightarrow> c\<lparr>ctx_SessionOptions := opts\<rparr>);
          s = NewMySession (so_Name (ctx_SessionOptions c0)) c0
      in c0\<lparr>ctx_Sessioner := Some (s\<lparr>sess_PreSaveHook := Some MaxAgeHook\<rparr>),
            PreResponseHooks := PreResponseHooks c0 @ [SaveHook]\<rparr>)"

definition newline :: string where
  "newline = [CHR 0x0A]"

definition Sessions ::
  "SessionOptions option \<Rightarrow> (string \<Rightarrow> Context \<Rightarrow> Session) \<Rightarrow> Context Handler
     \<Rightarrow> Context Handler \<Rightarrow> Context Handler" where
  "Sessions options NewMySession Save h c =
     (case h (session_setup options NewMySession c) of
        (err, c2) \<Rightarrow>
          (case Save c2 of
             (Some e, c3) \<Rightarrow>
               (let err1 =
                      (case err of
                         Some er \<Rightarrow>
                           errors_New (''Multiple errors:'' @ newline @ ''1. '' @ Error er @
                                       newline @ ''2. '' @ Error e)
                       | None \<Rightarrow> e)
                in (Some err1, c3\<lparr>Logger_errors := Logger_errors c3 @ [err1]\<rparr>))
           | (None, c3) \<Rightarrow> (err, c3)))"

section \<open>The statements to compare the code with\<close>

text \<open>
  Host patterns as the specification words them: a pattern strictly shorter than the request
  host matches it when it begins with a dot and is a suffix of the host, or ends with a dot and
  is a prefix of the host.
\<close>

definition pattern_matches :: "string \<Rightarrow> string \<Rightarrow> bool" where
  "pattern_matches h host =
     (length h < length host \<and>
      ((h \<noteq> [] \<and> hd h = CHR ''.'' \<and> suffix h host) \<or>
       (h \<noteq> [] \<and> last h = CHR ''.'' \<and> prefix h host)))"

text \<open>
  The query string as the specification words it: \<open>?\<close>, then the pairs \<open>key=value\<close> of the
  given keys joined by \<open>&\<close>, keys and values escaped.
\<close>

definition escaped_pair :: "(string \<rightharpoonup> string) \<Rightarrow> string \<Rightarrow> string" where
  "escaped_pair val k = QueryEscape k @ ''='' @ QueryEscape (map_at val k)"

definition query_string :: "string list \<Rightarrow> (string \<rightharpoonup> string) \<Rightarrow> string" where
  "query_string keys val =
     (case keys of
        [] \<Rightarrow> []
      | k # ks \<Rightarrow> ''?'' @ escaped_pair val k @ concat (map (\<lambda>k. ''&'' @ escaped_pair val k) ks))"

subsection \<open>Concrete instances for the examples\<close>

definition user_Route :: Route where
  "user_Route = \<lparr>Host = [], Method = ''GET'', Path = ''/user/:id'', Prefix = [],
                 Name = ''getUser'', Format = ''/user/%v'', Params = [''id'']\<rparr>"

definition member_Route :: Route where
  "member_Route = \<lparr>Host = [], Method = ''POST'', Path = ''/member/:id'', Prefix = [],
                   Name = ''getUser'', Format = ''/member/%v'', Params = [''id'']\<rparr>"

definition user_Echo :: "(string, string list) Echo" where
  "user_Echo = trace_Echo\<lparr>router := \<lparr>routes = [user_Route], nroute = [''getUser'' \<mapsto> [0]]\<rparr>\<rparr>"

definition shared_name_Echo :: "(string, string list) Echo" where
  "shared_name_Echo =
     trace_Echo\<lparr>router := \<lparr>routes = [user_Route, member_Route],
                             nroute = [''getUser'' \<mapsto> [0, 1]]\<rparr>\<rparr>"

definition no_Sprintf :: "string \<Rightarrow> unit Arg list \<Rightarrow> string" where
  "no_Sprintf fmt args = fmt"

definition unrelated_Group :: "string Group" where
  "unrelated_Group = \<lparr>group_host = ''static.example.com'', group_prefix = [],
                      group_middleware = []\<rparr>"

text \<open>A concrete request for the examples: no options given, an empty session, one handler
  and one \<open>Save\<close> that fail.\<close>

definition plain_Session :: "string \<Rightarrow> Context \<Rightarrow> Session" where
  "plain_Session name c = \<lparr>sess_name = name, sess_values = Map.empty, sess_PreSaveHook = None\<rparr>"

definition request_Context :: Context where
  "request_Context = \<lparr>ctx_SessionOptions = \<lparr>so_Name = ''SID''\<rparr>, ctx_Sessioner = None,
                       CookieOptions_MaxAge = 0, PreResponseHooks = [], Logger_errors = []\<rparr>"

definition failing :: "string \<Rightarrow> Context Handler" where
  "failing msg c = (Some (errors_New msg), c)"

definition remembering_Session :: Session where
  "remembering_Session = \<lparr>sess_name = ''SID'', sess_values = [CookieMaxAgeKey \<mapsto> V_int 7200],
                           sess_PreSaveHook = Some MaxAgeHook\<rparr>"

section \<open>Properties\<close>

subsection \<open>The chain builder and the chain cache\<close>

lemma Use_middleware: "middleware (Use e ms) = middleware e @ ms"
  by (induction ms arbitrary: e) auto

lemma Use_head [simp]: "head (Use e ms) = head e"
  by (induction ms arbitrary: e) auto

lemma Use_router [simp]: "router (Use e ms) = router e"
  by (induction ms arbitrary: e) auto

lemma Use_wrapper [simp]: "middlewareWrapper (Use e ms) = middlewareWrapper e"
  by (induction ms arbitrary: e) auto

lemma ValidMiddleware_wrapper:
  "middlewareWrapper e = middlewareWrapper e' \<Longrightarrow> ValidMiddleware D e = ValidMiddleware D e'"
  by (auto simp: ValidMiddleware_def fun_eq_iff)

text \<open>The downward loop over the indices is a right fold over the list.\<close>

lemma chain_from_take:
  "k \<le> length (middleware e) \<Longrightarrow>
   chain_from D e k h = foldr (ValidMiddleware D e) (take k (middleware e)) h"
proof (induction k arbitrary: h)
  case 0
  then show ?case by simp
next
  case (Suc k)
  then have "k < length (middleware e)" by simp
  then have "take (Suc k) (middleware e) = take k (middleware e) @ [middleware e ! k]"
    by (rule take_Suc_conv_app_nth)
  with Suc show ?case by simp
qed

lemma chain_from_foldr:
  "chain_from D e (length (middleware e)) h = foldr (ValidMiddleware D e) (middleware e) h"
  by (simp add: chain_from_take)

lemma foldr_pre:
  assumes "\<And>m h c. V m h c = h (pre m c)"
  shows "foldr V ms h c = h (fold pre ms c)"
  using assms by (induction ms arbitrary: c) auto

lemma chainMiddleware_builds:
  assumes "head e = None"
  shows "chainMiddleware D e =
           (foldr (ValidMiddleware D e) (middleware e) (Router_Handle D (router e)),
            e\<lparr>head := Some (foldr (ValidMiddleware D e) (middleware e)
                               (Router_Handle D (router e)))\<rparr>)"
  using assms by (simp add: chainMiddleware_def Let_def chain_from_foldr)

text \<open>
  Where no chain is cached: after the middleware \<open>mws\<close> were registered with \<open>Use\<close>, the chain
  builder returns the router's handler wrapped by the middleware list from the last to the
  first, so the first registered is outermost; it caches that handler; and when every
  middleware does its own step \<open>pre m\<close> on the context and then calls the next handler, the
  composed handler does the steps in registration order and then runs the router's handler.
\<close>

lemma chainMiddleware_onion:
  assumes "head e = None"
  shows "fst (chainMiddleware D (Use e mws)) =
           foldr (ValidMiddleware D e) (middleware e @ mws) (Router_Handle D (router e))
       \<and> head (snd (chainMiddleware D (Use e mws))) = Some (fst (chainMiddleware D (Use e mws)))
       \<and> ((\<forall>m h c. ValidMiddleware D e m h c = h (pre m c)) \<longrightarrow>
            (\<forall>c. fst (chainMiddleware D (Use e mws)) c =
                    Router_Handle D (router e) (fold pre (middleware e @ mws) c)))"
proof -
  have v: "ValidMiddleware D (Use e mws) = ValidMiddleware D e"
    by (rule ValidMiddleware_wrapper) simp
  have "head (Use e mws) = None"
    using assms by simp
  from chainMiddleware_builds [OF this, of D]
  have a: "fst (chainMiddleware D (Use e mws)) =
             foldr (ValidMiddleware D e) (middleware e @ mws) (Router_Handle D (router e))"
    and b: "head (snd (chainMiddleware D (Use e mws))) = Some (fst (chainMiddleware D (Use e mws)))"
    by (simp_all add: v Use_middleware)
  have "\<forall>c. fst (chainMiddleware D (Use e mws)) c =
              Router_Handle D (router e) (fold pre (middleware e @ mws) c)"
    if "\<forall>m h c. ValidMiddleware D e m h c = h (pre m c)"
  proof -
    have "foldr (ValidMiddleware D e) ms h c = h (fold pre ms c)" for ms h c
      by (rule foldr_pre) (simp add: that)
    then show ?thesis unfolding a by simp
  qed
  with a b show ?thesis by blast
qed

lemma chainMiddleware_onion_example:
  "head trace_Echo = None \<and>
   fst (chainMiddleware trace_Env (Use trace_Echo [''mw1'', ''mw2''])) [] =
     (None, [''mw1'', ''mw2'', ''route''])"
proof -
  have h: "head trace_Echo = None"
    by (simp add: NewWithContext_def trace_Echo_def)
  have v: "\<forall>m h c. ValidMiddleware trace_Env trace_Echo m h c = h ((\<lambda>n c. c @ [n]) m c)"
    by (simp add: ValidMiddleware_def NewWithContext_def trace_Env_def tracer_def trace_Echo_def)
  note t = chainMiddleware_onion [OF h, of trace_Env "[''mw1'', ''mw2'']" "\<lambda>n c. c @ [n]"]
  from t [THEN conjunct2, THEN conjunct2] v
  have "\<forall>c. fst (chainMiddleware trace_Env (Use trace_Echo [''mw1'', ''mw2''])) c =
          Router_Handle trace_Env (router trace_Echo)
            (fold (\<lambda>n c. c @ [n]) (middleware trace_Echo @ [''mw1'', ''mw2'']) c)"
    by (rule mp)
  then have "fst (chainMiddleware trace_Env (Use trace_Echo [''mw1'', ''mw2''])) [] =
          Router_Handle trace_Env (router trace_Echo)
            (fold (\<lambda>n c. c @ [n]) (middleware trace_Echo @ [''mw1'', ''mw2'']) [])"
    by (rule spec)
  then show ?thesis
    using h by (simp add: NewWithContext_def trace_Env_def route_handler_def trace_Echo_def)
qed

text \<open>The host path builds its chain by the same loop, around the handler of the host's router.\<close>

lemma Use_hosts [simp]: "hosts (Use e ms) = hosts e"
  by (induction ms arbitrary: e) auto

lemma Use_routers [simp]: "routers (Use e ms) = routers e"
  by (induction ms arbitrary: e) auto

lemma Use_pool [simp]: "pool (Use e ms) = pool e"
  by (induction ms arbitrary: e) auto

lemma findRouter_Use [simp]: "findRouter (Use e ms) host = findRouter e host"
  by (simp add: findRouter_def split: option.splits sum.splits)

lemma findRouter_default: "findRouter e host = Inr (rt, False) \<Longrightarrow> rt = router e"
  by (auto simp: findRouter_def split: if_splits option.splits sum.splits)

lemma chainMiddlewareByHost_builds:
  assumes "case hosts e host of None \<Rightarrow> True | Some h \<Rightarrow> host_head h = None"
  shows "fst (chainMiddlewareByHost D e host rt) =
           foldr (ValidMiddleware D e) (middleware e) (Router_Handle D rt)"
  using assms
  by (simp add: chainMiddlewareByHost_def Let_def chain_from_foldr split: option.splits)

lemma chainMiddlewareByHost_onion:
  assumes "case hosts e host of None \<Rightarrow> True | Some h \<Rightarrow> host_head h = None"
  shows "fst (chainMiddlewareByHost D (Use e mws) host rt) =
           foldr (ValidMiddleware D e) (middleware e @ mws) (Router_Handle D rt)"
proof -
  have v: "ValidMiddleware D (Use e mws) = ValidMiddleware D e"
    by (rule ValidMiddleware_wrapper) simp
  have "case hosts (Use e mws) host of None \<Rightarrow> True | Some h \<Rightarrow> host_head h = None"
    using assms by simp
  from chainMiddlewareByHost_builds [OF this, of D rt] show ?thesis
    by (simp add: v Use_middleware)
qed

text \<open>
  A dispatch on an instance that has no chain cached for the scope it resolves to (the
  default router, or the host entry) runs the steps of the middleware registered with \<open>Use\<close>
  in registration order, then the router's handler, and releases the context.
\<close>

lemma dispatch_in_registration_order:
  assumes f: "findRouter e (Request_Host D req) = Inr (rt, exist)"
      and nc: "if exist
               then (case hosts e (Request_Host D req) of
                       None \<Rightarrow> True
                     | Some h \<Rightarrow> host_head h = None)
               else head e = None"
      and pre: "\<And>m h c. ValidMiddleware D e m h c = h (pre m c)"
      and g: "pool_Get (pool e) = (c0, p)"
      and r: "Router_Handle D rt (fold pre (middleware e @ mws) (Context_Reset D req c0)) =
                (res, c1)"
  shows "released (ServeHTTP D (Use e mws) req) =
           (case res of None \<Rightarrow> c1 | Some err \<Rightarrow> Context_Error D err c1) # pool_items p"
proof -
  let ?host = "Request_Host D req"
  let ?built = "if exist then chainMiddlewareByHost D (Use e mws) ?host rt
                else chainMiddleware D (Use e mws)"
  obtain handler e1 where b: "?built = (handler, e1)"
    by (cases ?built)
  have fo: "foldr (ValidMiddleware D e) ms h c = h (fold pre ms c)" for ms h c
    by (rule foldr_pre) (simp add: pre)
  have "handler = foldr (ValidMiddleware D e) (middleware e @ mws) (Router_Handle D rt)"
  proof (cases exist)
    case True
    with nc have "case hosts e ?host of None \<Rightarrow> True | Some h \<Rightarrow> host_head h = None"
      by simp
    from chainMiddlewareByHost_onion [OF this, of D mws rt] b True show ?thesis
      by simp
  next
    case False
    with f have rt: "rt = router e" by (simp add: findRouter_default)
    from False nc have "head e = None" by simp
    from chainMiddleware_onion [OF this, of D mws, THEN conjunct1] b False rt show ?thesis
      by simp
  qed
  then have h: "handler (Context_Reset D req c0) = (res, c1)"
    using r by (simp add: fo)
  show ?thesis
    using f g b h
    by (cases res) (simp_all add: ServeHTTP_def released_def pool_Put_def)
qed

text \<open>What \<open>Clear\<close> does to the cache and to the chain built next.\<close>

lemma Clear_resets_head: "Clear typeOf e ms = Inr e' \<Longrightarrow> head e' = None"
  by (auto simp: Clear_def split: if_splits sum.splits)

lemma Clear_all: "Clear typeOf e [] = Inr (e\<lparr>middleware := [], head := None\<rparr>)"
  by (simp add: Clear_def)

lemma chainMiddleware_after_Clear:
  "Clear typeOf e [] = Inr e' \<Longrightarrow> fst (chainMiddleware D e') = Router_Handle D (router e)"
  by (auto simp: chainMiddleware_def Clear_def Let_def)

text \<open>
  \<open>Clear(mw)\<close> removes a middleware held by a pointer; on middleware of a func type the
  comparison panics, and the function is left before the cache is reset.
\<close>

lemma Clear_removes_pointer_middleware:
  "map_sum id middleware (Clear pointer_type (Use trace_Echo [''a'', ''mw'', ''b'']) [''mw'']) =
     Inr [''a'', ''b'']"
  by (simp add: Clear_def trace_Echo_def NewWithContext_def interface_neq_def pointer_type_def
      Let_def)

lemma Clear_panics_on_func_middleware:
  "Clear func_type (Use trace_Echo [''mw'']) [''mw''] = Inl UncomparableType"
  by (simp add: Clear_def trace_Echo_def NewWithContext_def interface_neq_def func_type_def)

text \<open>
  C1.  The instance serves one request (the chain is built and cached), then \<open>Use\<close> registers
  \<open>mw\<close>, then it serves a second request: the context released by the second dispatch records
  the route handler only, \<open>mw\<close> did not run.
\<close>

theorem Use_keeps_cached_chain:
  "released (case ServeHTTP trace_Env trace_Echo ''example.com'' of
               Inl p \<Rightarrow> Inl p
             | Inr e1 \<Rightarrow> ServeHTTP trace_Env (Use e1 [''mw'']) ''example.com'') = [[''route'']]"
  by (simp add: released_def ServeHTTP_def NewWithContext_def trace_Echo_def trace_Env_def
      pool_Get_def pool_Put_def findRouter_def chainMiddleware_def route_handler_def)

text \<open>Without a dispatch in between, the same registration does run.\<close>

lemma Use_before_first_dispatch:
  "released (ServeHTTP trace_Env (Use trace_Echo [''mw'']) ''example.com'') = [[''mw'', ''route'']]"
  by (simp add: released_def ServeHTTP_def NewWithContext_def trace_Echo_def trace_Env_def
      pool_Get_def pool_Put_def findRouter_def chainMiddleware_def route_handler_def
      ValidMiddleware_def tracer_def Let_def)

text \<open>
  On the host path the chain is cached in the host entry, which neither \<open>Use\<close> nor \<open>Clear\<close>
  resets: after a dispatch for a registered host, \<open>Clear()\<close> and a second dispatch for that
  host, the middleware registered before still runs.
\<close>

lemma Clear_keeps_host_chain:
  "released
     (case ServeHTTP trace_Env (Use host_Echo [''mw'']) ''api.example.com'' of
        Inl p \<Rightarrow> Inl p
      | Inr e1 \<Rightarrow>
          (case Clear pointer_type e1 [] of
             Inl p \<Rightarrow> Inl p
           | Inr e2 \<Rightarrow> ServeHTTP trace_Env e2 ''api.example.com'')) = [[''mw'', ''route'']]"
  by (simp add: released_def ServeHTTP_def NewWithContext_def trace_Echo_def host_Echo_def
      trace_Env_def pool_Get_def pool_Put_def findRouter_def chainMiddlewareByHost_def
      route_handler_def ValidMiddleware_def tracer_def Let_def Clear_def empty_Host_def)

text \<open>
  C3.  The middleware \<open>mw1\<close>, \<open>mw2\<close> are registered with \<open>Use\<close> in that order.  On an instance
  that has not served a request yet, the dispatch runs \<open>mw1\<close>, then \<open>mw2\<close>, then the route
  handler, on the default path and on the host path.  On an instance that has served a request
  before the registration (the chain is cached), the dispatch after \<open>Use\<close> runs the route
  handler only, on the default path and on the host path: the registered middleware do not run
  at all, in any order.
\<close>

theorem Use_order_lost_on_cached_chain:
  "released (ServeHTTP trace_Env (Use trace_Echo [''mw1'', ''mw2'']) ''example.com'') =
     [[''mw1'', ''mw2'', ''route'']]
   \<and> released (ServeHTTP trace_Env (Use host_Echo [''mw1'', ''mw2'']) ''api.example.com'') =
     [[''mw1'', ''mw2'', ''route'']]
   \<and> released (case ServeHTTP trace_Env trace_Echo ''example.com'' of
                 Inl p \<Rightarrow> Inl p
               | Inr e1 \<Rightarrow> ServeHTTP trace_Env (Use e1 [''mw1'', ''mw2'']) ''example.com'') =
     [[''route'']]
   \<and> released (case ServeHTTP trace_Env host_Echo ''api.example.com'' of
                 Inl p \<Rightarrow> Inl p
               | Inr e1 \<Rightarrow> ServeHTTP trace_Env (Use e1 [''mw1'', ''mw2'']) ''api.example.com'') =
     [[''route'']]"
proof (intro conjI)
  show "released (ServeHTTP trace_Env (Use trace_Echo [''mw1'', ''mw2'']) ''example.com'') =
          [[''mw1'', ''mw2'', ''route'']]"
    by (simp add: released_def ServeHTTP_def NewWithContext_def trace_Echo_def trace_Env_def
        pool_Get_def pool_Put_def findRouter_def chainMiddleware_def route_handler_def
        ValidMiddleware_def tracer_def Let_def)
  show "released (ServeHTTP trace_Env (Use host_Echo [''mw1'', ''mw2'']) ''api.example.com'') =
          [[''mw1'', ''mw2'', ''route'']]"
    by (simp add: released_def ServeHTTP_def NewWithContext_def trace_Echo_def host_Echo_def
        trace_Env_def pool_Get_def pool_Put_def findRouter_def chainMiddlewareByHost_def
        route_handler_def ValidMiddleware_def tracer_def Let_def empty_Host_def)
  show "released (case ServeHTTP trace_Env trace_Echo ''example.com'' of
                    Inl p \<Rightarrow> Inl p
                  | Inr e1 \<Rightarrow> ServeHTTP trace_Env (Use e1 [''mw1'', ''mw2'']) ''example.com'') =
          [[''route'']]"
    by (simp add: released_def ServeHTTP_def NewWithContext_def trace_Echo_def trace_Env_def
        pool_Get_def pool_Put_def findRouter_def chainMiddleware_def route_handler_def)
  show "released (case ServeHTTP trace_Env host_Echo ''api.example.com'' of
                    Inl p \<Rightarrow> Inl p
                  | Inr e1 \<Rightarrow>
                      ServeHTTP trace_Env (Use e1 [''mw1'', ''mw2'']) ''api.example.com'') =
          [[''route'']]"
    by (simp add: released_def ServeHTTP_def NewWithContext_def trace_Echo_def host_Echo_def
        trace_Env_def pool_Get_def pool_Put_def findRouter_def chainMiddlewareByHost_def
        route_handler_def Let_def empty_Host_def)
qed

subsection \<open>The dispatch loop and the context pool\<close>

text \<open>
  C8.  When host resolution yields a router and the chain built for it returns, the context
  taken from the pool is put back: after \<open>ServeHTTP\<close> the pool holds the context as the chain
  left it on a nil result, and as \<open>Context.Error\<close> left it on an error, in front of what the pool
  held after \<open>Get\<close>.
\<close>

theorem ServeHTTP_releases_context:
  assumes "findRouter e (Request_Host D req) = Inr (rt, exist)"
      and "(if exist then chainMiddlewareByHost D e (Request_Host D req) rt
            else chainMiddleware D e) = (handler, e1)"
      and "pool_Get (pool e) = (c0, p)"
      and "handler (Context_Reset D req c0) = (res, c1)"
  shows "(res = None \<longrightarrow>
            (\<exists>e'. ServeHTTP D e req = Inr e' \<and> pool_items (pool e') = c1 # pool_items p))
       \<and> (\<forall>err. res = Some err \<longrightarrow>
            (\<exists>e'. ServeHTTP D e req = Inr e' \<and>
                  pool_items (pool e') = Context_Error D err c1 # pool_items p))"
  using assms by (cases exist) (auto simp: ServeHTTP_def pool_Put_def)

theorem ServeHTTP_releases_context_witness:
  "(\<exists>e'. ServeHTTP trace_Env trace_Echo ''example.com'' = Inr e' \<and>
         pool_items (pool e') = [[''route'']])
   \<and> (\<exists>e'. ServeHTTP failing_Env trace_Echo ''example.com'' = Inr e' \<and>
         pool_items (pool e') = [[''route'', ''error'']])"
proof -
  let ?e1 = "trace_Echo\<lparr>head := Some route_handler\<rparr>"
  let ?e2 = "trace_Echo\<lparr>head := Some failing_handler\<rparr>"
  let ?p = "\<lparr>pool_items = [], pool_New = []\<rparr> :: string list Pool"
  have f1: "findRouter trace_Echo (Request_Host trace_Env ''example.com'') =
              Inr (router trace_Echo, False)"
    and f2: "findRouter trace_Echo (Request_Host failing_Env ''example.com'') =
              Inr (router trace_Echo, False)"
    by (simp_all add: findRouter_def trace_Echo_def NewWithContext_def)
  have c1: "(if False
             then chainMiddlewareByHost trace_Env trace_Echo
                    (Request_Host trace_Env ''example.com'') (router trace_Echo)
             else chainMiddleware trace_Env trace_Echo) = (route_handler, ?e1)"
    and c2: "(if False
             then chainMiddlewareByHost failing_Env trace_Echo
                    (Request_Host failing_Env ''example.com'') (router trace_Echo)
             else chainMiddleware failing_Env trace_Echo) = (failing_handler, ?e2)"
    by (simp_all add: chainMiddleware_def trace_Echo_def NewWithContext_def trace_Env_def
        failing_Env_def)
  have g: "pool_Get (pool trace_Echo) = ([], ?p)"
    by (simp add: pool_Get_def trace_Echo_def NewWithContext_def)
  have h1: "route_handler (Context_Reset trace_Env ''example.com'' []) = (None, [''route''])"
    and h2: "failing_handler (Context_Reset failing_Env ''example.com'' []) =
               (Some (errors_New ''boom''), [''route''])"
    by (simp_all add: route_handler_def failing_handler_def trace_Env_def failing_Env_def)
  from ServeHTTP_releases_context [OF f1 c1 g h1]
  have "\<exists>e'. ServeHTTP trace_Env trace_Echo ''example.com'' = Inr e' \<and>
             pool_items (pool e') = [[''route'']]"
    by simp
  moreover from ServeHTTP_releases_context [OF f2 c2 g h2]
  have "\<exists>e'. ServeHTTP failing_Env trace_Echo ''example.com'' = Inr e' \<and>
             pool_items (pool e') = [[''route'', ''error'']]"
    by (simp add: failing_Env_def trace_Env_def)
  ultimately show ?thesis by blast
qed

subsection \<open>The session middleware\<close>

text \<open>
  C7.  With \<open>err\<close> the result of the wrapped handler and \<open>serr\<close> the result of \<open>Save\<close> after it:
  when both are errors the middleware returns one new error whose message is
  \<open>Multiple errors:\<close>, then \<open>1.\<close> with the handler's message, then \<open>2.\<close> with the save message,
  each on a line of its own, and logs it; when only \<open>Save\<close> fails it returns and logs the save
  error; when \<open>Save\<close> succeeds it returns the handler's result as it is and logs nothing.
\<close>

theorem Sessions_merges_errors:
  assumes "h (session_setup options NewMySession c) = (err, c2)"
      and "Save c2 = (serr, c3)"
  shows "(\<forall>e1 e2. err = Some e1 \<and> serr = Some e2 \<longrightarrow>
            Sessions options NewMySession Save h c =
              (let both = errors_New (''Multiple errors:'' @ newline @ ''1. '' @ Error e1 @
                                      newline @ ''2. '' @ Error e2)
               in (Some both, c3\<lparr>Logger_errors := Logger_errors c3 @ [both]\<rparr>)))
       \<and> (\<forall>e2. err = None \<and> serr = Some e2 \<longrightarrow>
            Sessions options NewMySession Save h c =
              (Some e2, c3\<lparr>Logger_errors := Logger_errors c3 @ [e2]\<rparr>))
       \<and> (serr = None \<longrightarrow> Sessions options NewMySession Save h c = (err, c3))"
  using assms by (auto simp: Sessions_def Let_def)

theorem Sessions_merges_errors_witness:
  "fst (Sessions None plain_Session (failing ''save failed'') (failing ''handler failed'')
          request_Context) =
     Some (errorString (''Multiple errors:'' @ [CHR 0x0A] @ ''1. handler failed'' @ [CHR 0x0A] @
                        ''2. save failed''))"
proof -
  let ?c2 = "session_setup None plain_Session request_Context"
  have a: "failing ''handler failed'' ?c2 = (Some (errors_New ''handler failed''), ?c2)"
    and b: "failing ''save failed'' ?c2 = (Some (errors_New ''save failed''), ?c2)"
    by (simp_all add: failing_def)
  from Sessions_merges_errors [of "failing ''handler failed''" None plain_Session
      request_Context _ ?c2 "failing ''save failed''", OF a b, THEN conjunct1]
  show ?thesis
    by (simp add: errors_New_def newline_def Let_def)
qed

text \<open>
  C9.  When the session holds the \<open>int\<close> value \<open>n\<close> under \<open>CookieMaxAge\<close>, the pre-save
  hook returns nil and sets the cookie's MaxAge to \<open>n\<close> exactly when \<open>n\<close> exceeds 3600 and
  differs from the current MaxAge, leaving the context as it was otherwise; when the key is
  absent or holds a value that is not an \<open>int\<close>, the hook returns nil and leaves the context
  as it was.
\<close>

theorem preSaveHook_overrides_MaxAge:
  "(\<forall>n. Session_Get s CookieMaxAgeKey = Some (V_int n) \<longrightarrow>
        preSaveHook s c =
          (None, if 3600 < n \<and> CookieOptions_MaxAge c \<noteq> n
                 then c\<lparr>CookieOptions_MaxAge := n\<rparr> else c)
        \<and> ((snd (preSaveHook s c) \<noteq> c) = (3600 < n \<and> CookieOptions_MaxAge c \<noteq> n)))
   \<and> ((\<forall>n. Session_Get s CookieMaxAgeKey \<noteq> Some (V_int n)) \<longrightarrow> preSaveHook s c = (None, c))"
  by (auto simp: preSaveHook_def split: option.splits GoValue.splits
      dest: arg_cong [where f = CookieOptions_MaxAge])

theorem preSaveHook_overrides_MaxAge_witness:
  "preSaveHook remembering_Session request_Context =
     (None, request_Context\<lparr>CookieOptions_MaxAge := 7200\<rparr>)
   \<and> preSaveHook (plain_Session ''SID'' request_Context) request_Context =
     (None, request_Context)"
proof -
  have g: "Session_Get remembering_Session CookieMaxAgeKey = Some (V_int 7200)"
    by (simp add: Session_Get_def remembering_Session_def)
  have n: "\<forall>n. Session_Get (plain_Session ''SID'' request_Context) CookieMaxAgeKey \<noteq>
                 Some (V_int n)"
    by (simp add: Session_Get_def plain_Session_def)
  from preSaveHook_overrides_MaxAge [of remembering_Session request_Context,
      THEN conjunct1, THEN spec, THEN mp, OF g]
  have "preSaveHook remembering_Session request_Context =
          (None, request_Context\<lparr>CookieOptions_MaxAge := 7200\<rparr>)"
    by (simp add: request_Context_def)
  moreover from preSaveHook_overrides_MaxAge [of "plain_Session ''SID'' request_Context"
      request_Context, THEN conjunct2, THEN mp, OF n]
  have "preSaveHook (plain_Session ''SID'' request_Context) request_Context =
          (None, request_Context)" .
  ultimately show ?thesis by blast
qed

subsection \<open>Host resolution\<close>

text \<open>
  When no registered pattern is empty, \<open>findRouter\<close> does not panic and resolves as specified:
  the exact entry first, else the router of the first pattern (in iteration order) that matches,
  else the default router.
\<close>

lemma findRouter_range_nonempty:
  assumes "\<forall>(h, r) \<in> set rs. h \<noteq> []"
  shows "findRouter_range host rs =
           Inr (map_option snd (find (\<lambda>(h, r). pattern_matches h host) rs))"
  using assms
proof (induction rs)
  case Nil
  then show ?case by simp
next
  case (Cons x rs)
  obtain h r where x: "x = (h, r)" by (cases x)
  with Cons have ne: "h \<noteq> []"
    and ih: "findRouter_range host rs =
               Inr (map_option snd (find (\<lambda>(h, r). pattern_matches h host) rs))"
    by auto
  show ?case
    unfolding x using ne ih by (simp add: pattern_matches_def not_le)
qed

lemma findRouter_nonempty_patterns:
  assumes "\<forall>(h, r) \<in> set (routers e). h \<noteq> []"
  shows "findRouter e host =
           (case map_of (routers e) host of
              Some r \<Rightarrow> Inr (r, True)
            | None \<Rightarrow>
                (case find (\<lambda>(h, r). pattern_matches h host) (routers e) of
                   Some (h, r) \<Rightarrow> Inr (r, True)
                 | None \<Rightarrow> Inr (router e, False)))"
  using findRouter_range_nonempty [OF assms, of host]
  by (cases "routers e") (auto simp: findRouter_def split: option.splits)

lemma findRouter_wildcard_examples:
  "findRouter (e\<lparr>routers := [(''.example.com'', r1)]\<rparr>) ''foo.example.com'' = Inr (r1, True)"
  "findRouter (e\<lparr>routers := [(''.example.com'', r1)]\<rparr>) ''a.b.example.com'' = Inr (r1, True)"
  "findRouter (e\<lparr>routers := [(''.example.com'', r1)]\<rparr>) ''example.com'' = Inr (router e, False)"
  "findRouter (e\<lparr>routers := [(''api.'', r1)]\<rparr>) ''api.internal'' = Inr (r1, True)"
  "findRouter (e\<lparr>routers := [(''api.'', r1)]\<rparr>) ''myapi.internal'' = Inr (router e, False)"
  by (simp_all add: findRouter_def suffix_to_prefix)

text \<open>
  C4.  With the empty string registered as a host pattern and a request host that has no exact
  entry, the loop reaches \<open>h[0]\<close> on the empty pattern: the index is out of range and
  \<open>findRouter\<close> panics instead of returning the default router.
\<close>

theorem findRouter_empty_pattern_panics:
  "findRouter (trace_Echo\<lparr>routers := [([], router trace_Echo)]\<rparr>) ''example.com'' =
     Inl IndexOutOfRange"
  by (simp add: findRouter_def)

subsection \<open>Host\<close>

text \<open>The host table is looked up or created once: a second call leaves the state as it is.\<close>

lemma Host_returns_g: "Echo_Host g e n m = Inr (r, e1) \<Longrightarrow> r = g"
  by (auto simp: Echo_Host_def Let_def split: option.splits if_splits)

lemma Host_table_idempotent: "Echo_Host g e n m = Inr (r, e1) \<Longrightarrow> Echo_Host g e1 n [] = Inr (g, e1)"
  by (auto simp: Echo_Host_def Let_def split: option.splits if_splits)

text \<open>
  C2.  \<open>Host\<close> is called for \<open>api.example.com\<close> with one middleware and then again without:
  the entry created by the first call, whose group holds the middleware, is still in the host
  table, but the value the second call returns is what \<open>g\<close> denotes, here a group of another
  host with no middleware, not the entry's group.
\<close>

theorem Host_returns_unbound_g:
  "(case Echo_Host unrelated_Group trace_Echo ''api.example.com'' [''mw''] of
      Inl p \<Rightarrow> None
    | Inr (g1, e1) \<Rightarrow>
        (case Echo_Host unrelated_Group e1 ''api.example.com'' [] of
           Inl p \<Rightarrow> None
         | Inr (g2, e2) \<Rightarrow> Some (g2, map_option host_group (hosts e2 ''api.example.com''))))
   = Some (unrelated_Group,
           Some (Some \<lparr>group_host = ''api.example.com'', group_prefix = [],
                       group_middleware = [''mw'']\<rparr>))"
  by (simp add: Echo_Host_def trace_Echo_def NewWithContext_def Group_Use_def Let_def)

subsection \<open>URI\<close>

text \<open>The substitution loops delete exactly the parameter names from the caller's map.\<close>

lemma subst_map_at:
  "snd (subst_map names uri val) k = (if k \<in> set names then None else val k)"
  by (induction names arbitrary: uri val) (auto split: option.splits)

lemma subst_map_snd: "snd (subst_map names uri val) = val |` (- set names)"
  by (rule ext) (simp add: subst_map_at restrict_map_def)



text \<open>The loop that appends the pairs builds the query string of the keys it is given.\<close>

lemma query_loop_amp:
  "query_loop ks val uri ''&'' = uri @ concat (map (\<lambda>k. ''&'' @ escaped_pair val k) ks)"
  by (induction ks arbitrary: uri) (auto simp: escaped_pair_def)

lemma query_loop_query_string: "query_loop ks val uri ''?'' = uri @ query_string ks val"
  by (cases ks) (simp_all add: query_string_def query_loop_amp escaped_pair_def)

lemma query_string_cong:
  assumes "\<forall>k \<in> set ks. val1 k = val2 k"
  shows "query_string ks val1 = query_string ks val2"
proof -
  have "escaped_pair val1 k = escaped_pair val2 k" if "k \<in> set ks" for k
    using assms that by (simp add: escaped_pair_def map_at_def)
  then show ?thesis
    by (cases ks) (auto simp: query_string_def intro!: arg_cong [where f = concat])
qed

lemma sorted_keys_props:
  assumes "finite (dom val)"
  shows "set (sorted_keys val) = dom val" "sorted (sorted_keys val)" "distinct (sorted_keys val)"
  using assms by (simp_all add: sorted_keys_def)

lemma URI_found:
  assumes "nroute (router e) name = Some (i # rest)" "0 \<le> i" "nat i < length (routes (router e))"
  shows "URI S e (NameString name) params = Inr (URI_route S (routes (router e) ! nat i) params)"
  using assms by (simp add: URI_def)

lemma URI_route_map:
  assumes fin: "finite (dom val)"
  shows "URI_route S r [A_Map val] =
     (fst (subst_map (Params r) (Path r) val) @
        query_string (sorted_keys (val |` (- set (Params r)))) val,
      [A_Map (val |` (- set (Params r)))])"
proof -
  obtain uri val1 where sm: "subst_map (Params r) (Path r) val = (uri, val1)"
    by (cases "subst_map (Params r) (Path r) val")
  then have v1: "val1 = val |` (- set (Params r))"
    using subst_map_snd [of "Params r" "Path r" val] by simp
  have "\<forall>k \<in> set (sorted_keys val1). val1 k = val k"
  proof
    fix k assume "k \<in> set (sorted_keys val1)"
    moreover have "finite (dom val1)" using fin v1 by simp
    ultimately have "k \<in> dom val1" by (simp add: sorted_keys_def)
    then show "val1 k = val k" unfolding v1 by (auto simp: restrict_map_def split: if_splits)
  qed
  then have "query_string (sorted_keys val1) val1 = query_string (sorted_keys val1) val"
    by (rule query_string_cong)
  with sm v1 show ?thesis
    by (simp add: URI_route_def query_loop_query_string)
qed

text \<open>
  C5.  Let the name map give \<open>i\<close> as the first index for the name, \<open>r\<close> be the route at \<open>i\<close>
  and \<open>val\<close> a (finite) \<open>map[string]string\<close> passed as the only parameter.  When \<open>r\<close> has the
  pattern \<open>/user/:id\<close> with the parameter \<open>id\<close> and \<open>val\<close> is \<open>{"id": "42"}\<close>, URI returns
  \<open>/user/42\<close>.  For every \<open>val\<close>, URI returns the substituted path followed by the query string
  of the keys of \<open>val\<close> that are not parameter names of \<open>r\<close>, in strictly ascending order, keys
  and values escaped.
\<close>

theorem URI_map_query:
  assumes "nroute (router e) name = Some (i # rest)" and "0 \<le> i"
      and "nat i < length (routes (router e))" and "routes (router e) ! nat i = r"
      and "finite (dom val)"
  shows "(Path r = ''/user/:id'' \<and> Params r = [''id''] \<and> val = [''id'' \<mapsto> ''42''] \<longrightarrow>
            URI S e (NameString name) [A_Map val] = Inr (''/user/42'', [A_Map Map.empty]))
       \<and> (\<exists>keys. URI S e (NameString name) [A_Map val] =
                    Inr (fst (subst_map (Params r) (Path r) val) @ query_string keys val,
                         [A_Map (val |` (- set (Params r)))])
                \<and> set keys = dom val - set (Params r) \<and> sorted keys \<and> distinct keys)"
proof -
  let ?left = "val |` (- set (Params r))"
  have u: "URI S e (NameString name) [A_Map val] =
             Inr (fst (subst_map (Params r) (Path r) val) @ query_string (sorted_keys ?left) val,
                  [A_Map ?left])"
    using assms by (simp add: URI_found URI_route_map)
  have fin: "finite (dom ?left)" using assms(5) by simp
  have k: "set (sorted_keys ?left) = dom val - set (Params r)"
    "sorted (sorted_keys ?left)" "distinct (sorted_keys ?left)"
    using sorted_keys_props [OF fin] by auto
  have "URI S e (NameString name) [A_Map val] = Inr (''/user/42'', [A_Map Map.empty])"
    if "Path r = ''/user/:id''" "Params r = [''id'']" "val = [''id'' \<mapsto> ''42'']"
  proof -
    have s: "substitute ''/user/:id'' ''id'' ''42'' = ''/user/42''" by code_simp
    have "?left = Map.empty" using that by (auto simp: restrict_map_def fun_eq_iff)
    then show ?thesis unfolding u using that s
      by (simp add: sorted_keys_def query_string_def)
  qed
  with u k show ?thesis by blast
qed


lemma substitute_user: "substitute ''/user/:id'' ''id'' ''42'' = ''/user/42''"
  by code_simp

theorem URI_map_query_witness:
  "URI no_Sprintf user_Echo (NameString ''getUser'') [A_Map [''id'' \<mapsto> ''42'']] =
     Inr (''/user/42'', [A_Map Map.empty])"
proof -
  have a: "nroute (router user_Echo) ''getUser'' = Some [0]"
    and b: "nat 0 < length (routes (router user_Echo))"
    and c: "routes (router user_Echo) ! nat 0 = user_Route"
    by (simp_all add: user_Echo_def)
  have d: "finite (dom [''id'' \<mapsto> ''42''])" by simp
  have r: "Path user_Route = ''/user/:id'' \<and> Params user_Route = [''id''] \<and>
           [''id'' \<mapsto> ''42''] = [''id'' \<mapsto> ''42'']"
    by (simp add: user_Route_def)
  from URI_map_query [OF a _ b c d, THEN conjunct1, THEN mp, OF _ r]
  show ?thesis by simp
qed

lemma URI_query_example:
  "map_sum id fst
     (URI no_Sprintf user_Echo (NameString ''getUser'')
        [A_Map [''id'' \<mapsto> ''42'', ''q'' \<mapsto> ''a b'', ''lang'' \<mapsto> ''en&fr'']]) =
   Inr ''/user/42?lang=en%26fr&q=a+b''"
proof -
  have a: "nroute (router user_Echo) ''getUser'' = Some [0]"
    and b: "nat 0 < length (routes (router user_Echo))"
    and c: "routes (router user_Echo) ! nat 0 = user_Route"
    by (simp_all add: user_Echo_def)
  have e1: "QueryEscape ''lang'' = ''lang''" "QueryEscape ''en&fr'' = ''en%26fr''"
    "QueryEscape ''q'' = ''q''" "QueryEscape ''a b'' = ''a+b''"
    by code_simp+
  have "URI no_Sprintf user_Echo (NameString ''getUser'')
          [A_Map [''id'' \<mapsto> ''42'', ''q'' \<mapsto> ''a b'', ''lang'' \<mapsto> ''en&fr'']] =
        Inr (URI_route no_Sprintf user_Route
          [A_Map [''id'' \<mapsto> ''42'', ''q'' \<mapsto> ''a b'', ''lang'' \<mapsto> ''en&fr'']])"
    using URI_found [OF a _ b] c by simp
  then show ?thesis
    by (simp add: URI_route_map user_Route_def substitute_user
        sorted_keys_def query_string_def escaped_pair_def map_at_def e1 del: QueryEscape.simps)
qed

text \<open>
  C6.  For a handler reference or name that resolves to \<open>name\<close>: when the name map has no
  entry (or an empty list) for \<open>name\<close>, URI returns the empty string and no error; when the
  list is \<open>i # rest\<close>, URI uses the route at index \<open>i\<close> as the template, and replacing \<open>rest\<close>
  by any other list of indices does not change what URI returns.
\<close>

theorem URI_first_index:
  assumes "resolve_name h = Some name"
  shows "(nroute (router e) name = None \<or> nroute (router e) name = Some [] \<longrightarrow>
            URI S e h params = Inr ([], params))
       \<and> (\<forall>i rest. nroute (router e) name = Some (i # rest) \<and> 0 \<le> i \<and>
                    nat i < length (routes (router e)) \<longrightarrow>
            URI S e h params = Inr (URI_route S (routes (router e) ! nat i) params))
       \<and> (\<forall>i rest rest'. nroute (router e) name = Some (i # rest) \<longrightarrow>
            URI S (e\<lparr>router := (router e)\<lparr>nroute := (nroute (router e))(name \<mapsto> i # rest')\<rparr>\<rparr>)
                h params = URI S e h params)"
  using assms by (auto simp: URI_def)

theorem URI_first_index_witness:
  "URI no_Sprintf shared_name_Echo (NameString ''missing'') [A_Map [''id'' \<mapsto> ''42'']] =
     Inr ([], [A_Map [''id'' \<mapsto> ''42'']])
   \<and> URI no_Sprintf shared_name_Echo (NameString ''getUser'') [A_Map [''id'' \<mapsto> ''42'']] =
     Inr (''/user/42'', [A_Map Map.empty])"
proof -
  have n: "nroute (router shared_name_Echo) ''missing'' = None \<or>
           nroute (router shared_name_Echo) ''missing'' = Some []"
    by (simp add: shared_name_Echo_def)
  have f: "nroute (router shared_name_Echo) ''getUser'' = Some (0 # [1]) \<and> (0::int) \<le> 0 \<and>
           nat 0 < length (routes (router shared_name_Echo))"
    by (simp add: shared_name_Echo_def)
  have r1: "resolve_name (NameString ''missing'') = Some ''missing''"
    and r2: "resolve_name (NameString ''getUser'') = Some ''getUser''"
    by simp_all
  have "URI no_Sprintf shared_name_Echo (NameString ''missing'') [A_Map [''id'' \<mapsto> ''42'']] =
     Inr ([], [A_Map [''id'' \<mapsto> ''42'']])"
    using URI_first_index [OF r1, THEN conjunct1, THEN mp, OF n] .
  moreover have "routes (router shared_name_Echo) ! nat 0 = user_Route"
    by (simp add: shared_name_Echo_def)
  moreover have "[''id'' \<mapsto> ''42''] |` (- {''id''}) = Map.empty"
    by (auto simp: restrict_map_def fun_eq_iff)
  moreover note URI_first_index [OF r2, THEN conjunct2, THEN conjunct1, THEN spec, THEN spec,
      THEN mp, OF f, of no_Sprintf "[A_Map [''id'' \<mapsto> ''42'']]"]
  ultimately show ?thesis
    by (simp add: URI_route_map user_Route_def substitute_user sorted_keys_def query_string_def)
qed





end
